theory Spec2Isabelle
  imports Main "HOL-Library.Word"
begin

unbundle bit_operations_syntax

section \<open>The relay handler of the example HTTP proxy (ProxyHandler.cpp)\<close>

text \<open>
  The handler is a C++ object whose methods are callbacks: the client-facing stream
  (\<open>downstream_\<close>), the upstream connector, the upstream transaction (\<open>txn_\<close>) and the raw
  upstream socket (\<open>upstreamSock_\<close>) call them from one event loop. Each method is
  modelled as a function from the object's fields to the updated fields. Every call that a
  callback makes on a collaborator is appended, in program order, to a trace kept in the
  state, so that what was sent where, and in which order, can be read off afterwards.
\<close>

subsection \<open>Data\<close>

text \<open>\<open>proxygen::HTTPMethod\<close>; \<open>HTTPMessage::getMethod()\<close> yields no value for a method
  string outside the enumeration, hence the option in \<open>getMethod\<close> below.\<close>

datatype HTTPMethod =
  GET | POST | OPTIONS | DELETE | HEAD | CONNECT | CONNECT_UDP | PUT | TRACE | PATCH
  | SUB | PUB | UNSUB

record HTTPMessage =
  getMethod :: "HTTPMethod option"
  getURL :: string
  getStatusCode :: "16 word"
  getStatusMessage :: string

text \<open>A \<open>std::unique_ptr<folly::IOBuf>\<close> is a possibly null chain of bytes.\<close>

type_synonym IOBuf = "string option"

text \<open>
  The calls made on the collaborators, and \<open>delete this\<close>. \<open>ConnectorConnect\<close> is
  \<open>connector_.connect\<close>, which starts the connection and returns; its outcome arrives
  later, as the callback \<open>connectSuccess\<close> or \<open>connectError\<close>. \<open>SockReset\<close> is
  \<open>upstreamSock_.reset()\<close>. \<open>DoDownloadResponse\<close> is the call of the member function of
  that name, which ProxyHandler.cpp does not define; it is taken to leave the fields
  below alone.
\<close>

datatype action =
    RecordRequest
  | DownSendHeaders "16 word" string
  | DownSendBody IOBuf
  | DownSendEOM
  | DownSendAbort
  | DownPauseIngress
  | DownResumeIngress
  | ConnectorConnect string
  | TxnSendHeaders HTTPMessage
  | TxnSendBody IOBuf
  | TxnSendEOM
  | TxnSendAbort
  | TxnPauseIngress
  | TxnResumeIngress
  | SockSetReadCB bool
  | SockReset
  | DoDownloadResponse
  | DeleteThis

text \<open>
  The fields of \<open>ProxyHandler\<close> that the methods read or write. The class declaration
  (ProxyHandler.h) is not among the sources, so the fields are the names the method bodies
  use, without the trailing underscore: \<open>body\<close>, \<open>chain\<close> and \<open>addr\<close> are used by \<open>onEOM\<close>
  and \<open>onServerEOM\<close> without a local declaration, \<open>body_queue\<close> is the \<open>IOBufQueue body_\<close>
  of the raw-socket read path. \<open>txn\<close>, \<open>session\<close> and \<open>upstreamSock\<close> record whether the
  pointer is non-null. \<open>rsp_body\<close> is taken to be a string and \<open>http_status\<close> an \<open>int\<close>, as
  the field of that name in BusiHandler.h is; the call of \<open>status\<close> converts it to
  \<open>uint16_t\<close>. The client-facing stream
  \<open>downstream_\<close> is set by the server before the first callback and is never null;
  \<open>newTransaction\<close> is taken to return a transaction.
\<close>

record ProxyHandler =
  request :: "HTTPMessage option"
  http_status :: int
  rsp_body :: string
  need_forward :: bool
  forward_url :: string
  addr :: string
  body :: IOBuf
  chain :: IOBuf
  body_queue :: string
  session :: bool
  txn :: bool
  upstreamSock :: bool
  sockStatus :: "8 word"
  clientTerminated :: bool
  upstreamEgressPaused :: bool
  downstreamIngressPaused :: bool
  trace :: "action list"

text \<open>What stops a callback: a dereferenced null pointer, a failed \<open>CHECK\<close>, or a call on a
  handler that \<open>delete this\<close> has already destroyed.\<close>

datatype fault = NullDeref | CheckFailed | UseAfterDelete

text \<open>The result of \<open>RequestHander::DoRequest\<close>, which is declared in BusiHandler.h and
  defined nowhere in the sources: the forward flag and the forward URL it leaves behind.\<close>

record decision =
  forward_flag :: bool
  forward_url_of :: string

subsection \<open>Constants\<close>

definition READS_SHUTDOWN :: "8 word" where
  "READS_SHUTDOWN = 1"

definition WRITES_SHUTDOWN :: "8 word" where
  "WRITES_SHUTDOWN = 2"

definition CLOSED :: "8 word" where
  "CLOSED = READS_SHUTDOWN OR WRITES_SHUTDOWN"

subsection \<open>Helpers\<close>

definition emit :: "action list \<Rightarrow> ProxyHandler \<Rightarrow> ProxyHandler" where
  "emit as s = s\<lparr>trace := trace s @ as\<rparr>"

text \<open>
  \<open>ResponseBuilder(downstream_).status(code, msg).body(b).send()\<close> of the proxygen
  library. \<open>status\<close> takes the code as a \<open>uint16_t\<close>. \<open>body\<close> copies a string into a
  buffer and keeps no buffer for the empty string, so that \<open>b = []\<close> stands both for a
  builder whose \<open>body\<close> was not called and for one that was given the empty string.
  \<open>send\<close> sends the headers, then the body if there is a buffer, then end-of-message if
  \<open>sendWithEOM\<close> was called.
\<close>

definition ResponseBuilder :: "16 word \<Rightarrow> string \<Rightarrow> string \<Rightarrow> bool \<Rightarrow> action list" where
  "ResponseBuilder code msg b eom =
     DownSendHeaders code msg
       # (if b = [] then [] else [DownSendBody (Some b)])
       @ (if eom then [DownSendEOM] else [])"


subsection \<open>The methods\<close>

definition checkForShutdown :: "ProxyHandler \<Rightarrow> ProxyHandler \<times> bool" where
  "checkForShutdown s =
     (if clientTerminated s \<and> \<not> txn s \<and>
         (\<not> upstreamSock s \<or> (sockStatus s = CLOSED \<and> \<not> upstreamEgressPaused s))
      then (emit [DeleteThis] s, True)
      else (s, False))"

definition abortDownstream :: "ProxyHandler \<Rightarrow> ProxyHandler" where
  "abortDownstream s = (if \<not> clientTerminated s then emit [DownSendAbort] s else s)"

definition onRequest :: "HTTPMessage \<Rightarrow> ProxyHandler \<Rightarrow> ProxyHandler" where
  "onRequest headers s =
     (let s1 = emit [RecordRequest] s;
          s2 = s1\<lparr>request := Some headers\<rparr>
      in if getMethod headers \<noteq> Some GET \<and> getMethod headers \<noteq> Some POST
         then emit (ResponseBuilder (word_of_int (http_status s2)) ''Bad Gateway''
                      (rsp_body s2) True) s2
         else s2)"

definition onBody :: "IOBuf \<Rightarrow> ProxyHandler \<Rightarrow> ProxyHandler" where
  "onBody b s = s"

definition ServiceRequest :: "decision \<Rightarrow> ProxyHandler \<Rightarrow> fault + ProxyHandler" where
  "ServiceRequest d s =
     (case request s of
        None \<Rightarrow> Inl NullDeref
      | Some r \<Rightarrow> Inr (s\<lparr>need_forward := forward_flag d, forward_url := forward_url_of d\<rparr>))"

definition onEOM :: "decision \<Rightarrow> ProxyHandler \<Rightarrow> fault + ProxyHandler" where
  "onEOM d s =
     (case ServiceRequest d s of
        Inl f \<Rightarrow> Inl f
      | Inr s1 \<Rightarrow>
          if \<not> need_forward s1
          then Inr (emit (ResponseBuilder (word_of_int (http_status s1)) ''Bad Gateway''
                            (rsp_body s1) True) s1)
          else
            (let s2 = emit [DownPauseIngress] s1;
                 s3 = emit [DownPauseIngress] s2;
                 s4 = emit [ConnectorConnect (addr s3)] s3;
                 s5 = (if txn s4 then (emit [TxnSendBody (body s4)] s4)\<lparr>body := None\<rparr>
                       else s4);
                 s6 = (if txn s5 then emit [TxnSendEOM] s5 else s5)
             in Inr s6))"

definition connectSuccess :: "ProxyHandler \<Rightarrow> fault + ProxyHandler" where
  "connectSuccess s =
     (let s1 = s\<lparr>session := True\<rparr>;
          s2 = s1\<lparr>txn := True\<rparr>
      in case request s2 of
           None \<Rightarrow> Inl NullDeref
         | Some r \<Rightarrow> Inr (emit [DownResumeIngress] (emit [TxnSendHeaders r] s2)))"

definition connectError :: "ProxyHandler \<Rightarrow> ProxyHandler" where
  "connectError s =
     (if \<not> clientTerminated s
      then emit (ResponseBuilder 503 ''Bad Gateway'' [] True) s
      else fst (checkForShutdown (abortDownstream s)))"

definition onServerHeadersComplete :: "HTTPMessage \<Rightarrow> ProxyHandler \<Rightarrow> fault + ProxyHandler" where
  "onServerHeadersComplete msg s =
     (if clientTerminated s then Inl CheckFailed
      else Inr (emit [DownSendHeaders (getStatusCode msg) (getStatusMessage msg)] s))"

definition onServerBody :: "IOBuf \<Rightarrow> ProxyHandler \<Rightarrow> fault + ProxyHandler" where
  "onServerBody c s =
     (if clientTerminated s then Inl CheckFailed
      else Inr (emit [DownSendBody c] s))"

definition onServerEOM :: "ProxyHandler \<Rightarrow> ProxyHandler" where
  "onServerEOM s =
     (let s1 = emit [DoDownloadResponse] s;
          s2 = (emit [DownSendBody (chain s1)] s1)\<lparr>chain := None\<rparr>
      in if \<not> clientTerminated s2 then emit [DownSendEOM] s2 else s2)"

definition detachServerTransaction :: "ProxyHandler \<Rightarrow> ProxyHandler" where
  "detachServerTransaction s = fst (checkForShutdown (s\<lparr>txn := False\<rparr>))"

definition onServerError :: "ProxyHandler \<Rightarrow> ProxyHandler" where
  "onServerError s = abortDownstream s"

definition onServerEgressPaused :: "ProxyHandler \<Rightarrow> ProxyHandler" where
  "onServerEgressPaused s = (if \<not> clientTerminated s then emit [DownPauseIngress] s else s)"

definition onServerEgressResumed :: "ProxyHandler \<Rightarrow> ProxyHandler" where
  "onServerEgressResumed s = (if \<not> clientTerminated s then emit [DownResumeIngress] s else s)"

definition requestComplete :: "ProxyHandler \<Rightarrow> ProxyHandler" where
  "requestComplete s = fst (checkForShutdown (s\<lparr>clientTerminated := True\<rparr>))"

definition onError :: "ProxyHandler \<Rightarrow> ProxyHandler" where
  "onError s =
     (let s1 = s\<lparr>clientTerminated := True\<rparr>;
          s2 = (if txn s1 then emit [TxnSendAbort] s1
                else if upstreamSock s1 then (emit [SockReset] s1)\<lparr>upstreamSock := False\<rparr>
                else s1)
      in fst (checkForShutdown s2))"

definition onEgressPaused :: "ProxyHandler \<Rightarrow> ProxyHandler" where
  "onEgressPaused s =
     (if txn s then emit [TxnPauseIngress] s
      else if upstreamSock s then emit [SockSetReadCB False] s
      else s)"

definition onEgressResumed :: "ProxyHandler \<Rightarrow> ProxyHandler" where
  "onEgressResumed s =
     (if txn s then emit [TxnResumeIngress] s
      else if upstreamSock s then emit [SockSetReadCB True] s
      else s)"

text \<open>The second \<open>connectSuccess\<close>, without arguments: the raw socket's connect callback.\<close>

definition connectSuccess_sock :: "ProxyHandler \<Rightarrow> fault + ProxyHandler" where
  "connectSuccess_sock s =
     (let s1 = emit (ResponseBuilder 200 ''OK'' [] False) s
      in if \<not> upstreamSock s1 then Inl NullDeref
         else Inr (emit [DownResumeIngress] (emit [SockSetReadCB True] s1)))"

definition connectErr :: "ProxyHandler \<Rightarrow> ProxyHandler" where
  "connectErr s = connectError s"

text \<open>\<open>data\<close> is what the socket wrote into the read buffer before the callback.\<close>

definition readDataAvailable :: "string \<Rightarrow> ProxyHandler \<Rightarrow> ProxyHandler" where
  "readDataAvailable data s =
     (let s1 = s\<lparr>body_queue := body_queue s @ data\<rparr>
      in (emit [DownSendBody (Some (body_queue s1))] s1)\<lparr>body_queue := []\<rparr>)"

definition readEOF :: "ProxyHandler \<Rightarrow> ProxyHandler" where
  "readEOF s = onServerEOM (s\<lparr>sockStatus := sockStatus s OR READS_SHUTDOWN\<rparr>)"

definition readErr :: "ProxyHandler \<Rightarrow> ProxyHandler" where
  "readErr s =
     (let s1 = abortDownstream s;
          s2 = (emit [SockReset] s1)\<lparr>upstreamSock := False\<rparr>
      in fst (checkForShutdown s2))"

definition writeSuccess :: "ProxyHandler \<Rightarrow> ProxyHandler" where
  "writeSuccess s =
     (let s1 = s\<lparr>upstreamEgressPaused := False\<rparr>;
          s2 = (if downstreamIngressPaused s1
                then onServerEgressResumed (s1\<lparr>downstreamIngressPaused := False\<rparr>)
                else s1)
      in fst (checkForShutdown s2))"

definition writeErr :: "ProxyHandler \<Rightarrow> ProxyHandler" where
  "writeErr s =
     (let s1 = s\<lparr>upstreamEgressPaused := False\<rparr>;
          s2 = abortDownstream s1;
          s3 = (emit [SockReset] s2)\<lparr>upstreamSock := False\<rparr>
      in fst (checkForShutdown s3))"

subsection \<open>Callbacks as events\<close>

datatype event =
    OnRequest HTTPMessage
  | OnBody IOBuf
  | OnEOM decision
  | ConnectSuccess
  | ConnectError
  | OnServerHeadersComplete HTTPMessage
  | OnServerBody IOBuf
  | OnServerEOM
  | DetachServerTransaction
  | OnServerError
  | OnServerEgressPaused
  | OnServerEgressResumed
  | RequestComplete
  | OnError
  | OnEgressPaused
  | OnEgressResumed
  | ConnectSuccessSock
  | ConnectErr
  | ReadDataAvailable string
  | ReadEOF
  | ReadErr
  | WriteSuccess
  | WriteErr

fun handle :: "event \<Rightarrow> ProxyHandler \<Rightarrow> fault + ProxyHandler" where
  "handle (OnRequest m) s = Inr (onRequest m s)"
| "handle (OnBody b) s = Inr (onBody b s)"
| "handle (OnEOM d) s = onEOM d s"
| "handle ConnectSuccess s = connectSuccess s"
| "handle ConnectError s = Inr (connectError s)"
| "handle (OnServerHeadersComplete m) s = onServerHeadersComplete m s"
| "handle (OnServerBody c) s = onServerBody c s"
| "handle OnServerEOM s = Inr (onServerEOM s)"
| "handle DetachServerTransaction s = Inr (detachServerTransaction s)"
| "handle OnServerError s = Inr (onServerError s)"
| "handle OnServerEgressPaused s = Inr (onServerEgressPaused s)"
| "handle OnServerEgressResumed s = Inr (onServerEgressResumed s)"
| "handle RequestComplete s = Inr (requestComplete s)"
| "handle OnError s = Inr (onError s)"
| "handle OnEgressPaused s = Inr (onEgressPaused s)"
| "handle OnEgressResumed s = Inr (onEgressResumed s)"
| "handle ConnectSuccessSock s = connectSuccess_sock s"
| "handle ConnectErr s = Inr (connectErr s)"
| "handle (ReadDataAvailable data) s = Inr (readDataAvailable data s)"
| "handle ReadEOF s = Inr (readEOF s)"
| "handle ReadErr s = Inr (readErr s)"
| "handle WriteSuccess s = Inr (writeSuccess s)"
| "handle WriteErr s = Inr (writeErr s)"

text \<open>Callbacks delivered one after the other; a fault ends the run.\<close>

fun run :: "event list \<Rightarrow> ProxyHandler \<Rightarrow> fault + ProxyHandler" where
  "run [] s = Inr s"
| "run (e # es) s = (case handle e s of Inl f \<Rightarrow> Inl f | Inr s' \<Rightarrow> run es s')"


text \<open>
  A handler before any callback: no request, no upstream, no flag set, nothing sent.
  The constructor in ProxyHandler.cpp initialises none of these fields; their initial
  values are those of the class declaration, which is not among the sources, and the
  flags are taken to start unset. The status and body of the immediate response
  (\<open>http_status_\<close>, \<open>rsp_body_\<close>) are assigned nowhere in ProxyHandler.cpp and are
  parameters here. \<open>fresh\<close> only serves as a concrete input; the general statements
  below hold for every handler state.
\<close>

definition fresh :: "int \<Rightarrow> string \<Rightarrow> ProxyHandler" where
  "fresh st rb =
     \<lparr> request = None, http_status = st, rsp_body = rb, need_forward = False,
       forward_url = [], addr = [], body = None, chain = None, body_queue = [],
       session = False, txn = False, upstreamSock = False, sockStatus = 0,
       clientTerminated = False, upstreamEgressPaused = False,
       downstreamIngressPaused = False, trace = [] \<rparr>"

subsection \<open>Classes of callbacks\<close>


text \<open>The callbacks that answer the client themselves through \<open>ResponseBuilder\<close> with
  \<open>sendWithEOM\<close>, without looking at \<open>clientTerminated_\<close>: \<open>onRequest\<close> for a method
  other than GET and POST, \<open>onEOM\<close> when the forward flag is off.\<close>

fun sends_immediate_response :: "event \<Rightarrow> bool" where
  "sends_immediate_response (OnRequest m) = (getMethod m \<noteq> Some GET \<and> getMethod m \<noteq> Some POST)"
| "sends_immediate_response (OnEOM d) = (\<not> forward_flag d)"
| "sends_immediate_response _ = False"

text \<open>The two callbacks that report the end of the upstream response.\<close>

fun upstream_eom_signal :: "event \<Rightarrow> bool" where
  "upstream_eom_signal OnServerEOM = True"
| "upstream_eom_signal ReadEOF = True"
| "upstream_eom_signal _ = False"

subsection \<open>Concrete requests, decisions and handlers\<close>

definition post_request :: HTTPMessage where
  "post_request = \<lparr> getMethod = Some POST, getURL = ''/x'', getStatusCode = 0, getStatusMessage = [] \<rparr>"

definition delete_request :: HTTPMessage where
  "delete_request = \<lparr> getMethod = Some DELETE, getURL = ''/x'', getStatusCode = 0, getStatusMessage = [] \<rparr>"

definition forward_decision :: decision where
  "forward_decision = \<lparr> forward_flag = True, forward_url_of = ''http://10.0.0.1:80/x'' \<rparr>"

definition decline_decision :: decision where
  "decline_decision = \<lparr> forward_flag = False, forward_url_of = [] \<rparr>"

text \<open>A handler relaying over a raw upstream socket.\<close>

definition raw_relay_handler :: ProxyHandler where
  "raw_relay_handler = (fresh 502 ''declined'')\<lparr>upstreamSock := True\<rparr>"

text \<open>The headers of an upstream response.\<close>

definition ok_response :: HTTPMessage where
  "ok_response = \<lparr> getMethod = None, getURL = [], getStatusCode = 200, getStatusMessage = ''OK'' \<rparr>"

text \<open>A handler relaying over an upstream transaction, with the downstream-ingress flag set.\<close>

definition paused_relay_handler :: ProxyHandler where
  "paused_relay_handler = (fresh 502 ''declined'')\<lparr>txn := True, downstreamIngressPaused := True\<rparr>"

text \<open>A handler whose client has gone while the upstream transaction is still attached.\<close>

definition aborted_relay_handler :: ProxyHandler where
  "aborted_relay_handler = (fresh 502 ''declined'')\<lparr>txn := True, clientTerminated := True\<rparr>"

section \<open>Properties\<close>

subsection \<open>Auxiliary facts\<close>

lemmas handler_defs =
  onRequest_def onBody_def onEOM_def ServiceRequest_def connectSuccess_def connectError_def
  onServerHeadersComplete_def onServerBody_def onServerEOM_def detachServerTransaction_def
  onServerError_def onServerEgressPaused_def onServerEgressResumed_def requestComplete_def
  onError_def onEgressPaused_def onEgressResumed_def connectSuccess_sock_def connectErr_def
  readDataAvailable_def readEOF_def readErr_def writeSuccess_def writeErr_def
  abortDownstream_def checkForShutdown_def ResponseBuilder_def emit_def

lemmas input_defs =
  fresh_def post_request_def delete_request_def forward_decision_def decline_decision_def
  raw_relay_handler_def ok_response_def
  paused_relay_handler_def aborted_relay_handler_def





lemma handle_no_sock:
  assumes "handle e s = Inr s'" and "\<not> upstreamSock s"
  shows "\<not> upstreamSock s'"
  using assms
  by (cases e; auto simp: handler_defs Let_def split: if_splits option.splits sum.splits)


lemma run_no_sock:
  "run es s = Inr s' \<Longrightarrow> \<not> upstreamSock s \<Longrightarrow> \<not> upstreamSock s'"
proof (induction es arbitrary: s)
  case Nil
  then show ?case by simp
next
  case (Cons e es)
  from Cons.prems(1) obtain s1 where h: "handle e s = Inr s1" and r: "run es s1 = Inr s'"
    by (auto split: sum.splits)
  have "\<not> upstreamSock s1"
    by (rule handle_no_sock [OF h Cons.prems(2)])
  with r show ?case
    by (rule Cons.IH)
qed







lemma run_append:
  "run (xs @ ys) s = (case run xs s of Inl f \<Rightarrow> Inl f | Inr s' \<Rightarrow> run ys s')"
  by (induction xs arbitrary: s) (auto split: sum.splits)

lemma run_bodies: "run (map OnBody bs) s = Inr s"
  by (induction bs) (simp_all add: onBody_def)

text \<open>Whatever the request and the chunks: a forward whose connection is established
  after \<open>onEOM\<close> has returned sends upstream the headers and nothing else.\<close>

lemma forward_then_connectSuccess:
  assumes "forward_flag d" and "\<not> txn s" and "request s = Some r"
  shows "\<exists>s'. run (map OnBody bs @ [OnEOM d, ConnectSuccess]) s = Inr s'
           \<and> trace s' = trace s @ [DownPauseIngress, DownPauseIngress, ConnectorConnect (addr s),
                                   TxnSendHeaders r, DownResumeIngress]"
  using assms
  by (simp add: run_append run_bodies onEOM_def ServiceRequest_def connectSuccess_def
        emit_def Let_def)

text \<open>Whatever the rejected method: the \<open>onEOM\<close> after the rejection decides as for any
  other request.\<close>

lemma rejected_then_onEOM:
  assumes "getMethod m \<noteq> Some GET" and "getMethod m \<noteq> Some POST"
  shows "\<exists>s'. run [OnRequest m, OnEOM d] s = Inr s'
           \<and> trace s' = trace s
               @ [RecordRequest]
               @ ResponseBuilder (word_of_int (http_status s)) ''Bad Gateway'' (rsp_body s) True
               @ (if forward_flag d
                  then [DownPauseIngress, DownPauseIngress, ConnectorConnect (addr s)]
                         @ (if txn s then [TxnSendBody (body s), TxnSendEOM] else [])
                  else ResponseBuilder (word_of_int (http_status s)) ''Bad Gateway''
                         (rsp_body s) True)"
  using assms
  by (simp add: onRequest_def onEOM_def ServiceRequest_def emit_def Let_def)

text \<open>A declined forward of a request with an accepted method: the one response of
  \<open>onEOM\<close> is all the handler sends for the request.\<close>

lemma declined_forward_accepted_method:
  assumes "\<not> forward_flag d" and "getMethod m = Some GET \<or> getMethod m = Some POST"
  shows "\<exists>s'. run (OnRequest m # map OnBody bs @ [OnEOM d]) s = Inr s'
           \<and> trace s' = trace s
               @ RecordRequest
                 # ResponseBuilder (word_of_int (http_status s)) ''Bad Gateway'' (rsp_body s) True"
  using assms
  by (auto simp: run_append run_bodies onRequest_def onEOM_def ServiceRequest_def
        emit_def Let_def)

lemma handle_terminated:
  assumes "clientTerminated s" and "handle e s = Inr s'"
  shows "clientTerminated s' \<and>
         (\<exists>acts. trace s' = trace s @ acts \<and> DownSendAbort \<notin> set acts \<and>
                 (\<not> sends_immediate_response e \<longrightarrow> DownSendEOM \<notin> set acts))"
  using assms
  by (cases e; auto simp: handler_defs Let_def split: if_splits option.splits sum.splits)

lemma run_terminated:
  assumes "clientTerminated s" and "run es s = Inr s'"
  shows "clientTerminated s' \<and>
         (\<exists>acts. trace s' = trace s @ acts \<and> DownSendAbort \<notin> set acts \<and>
                 ((\<forall>e\<in>set es. \<not> sends_immediate_response e) \<longrightarrow> DownSendEOM \<notin> set acts))"
  using assms
proof (induction es arbitrary: s)
  case Nil
  then show ?case by simp
next
  case (Cons e es)
  from Cons.prems obtain s1 where h: "handle e s = Inr s1" and r: "run es s1 = Inr s'"
    by (auto split: sum.splits)
  from handle_terminated [OF Cons.prems(1) h] obtain a1 where
    t1: "clientTerminated s1" and a1: "trace s1 = trace s @ a1" "DownSendAbort \<notin> set a1"
      "\<not> sends_immediate_response e \<longrightarrow> DownSendEOM \<notin> set a1"
    by blast
  from Cons.IH [OF t1 r] obtain a2 where
    t2: "clientTerminated s'" and a2: "trace s' = trace s1 @ a2" "DownSendAbort \<notin> set a2"
      "(\<forall>e\<in>set es. \<not> sends_immediate_response e) \<longrightarrow> DownSendEOM \<notin> set a2"
    by blast
  have "trace s' = trace s @ (a1 @ a2)"
    using a1 a2 by simp
  moreover have "DownSendAbort \<notin> set (a1 @ a2)"
    using a1 a2 by simp
  moreover have "(\<forall>x\<in>set (e # es). \<not> sends_immediate_response x) \<longrightarrow>
                   DownSendEOM \<notin> set (a1 @ a2)"
    using a1 a2 by simp
  ultimately show ?case
    using t2 by blast
qed

lemma onServerEOM_trace:
  "trace (onServerEOM s) =
     trace s @ [DoDownloadResponse, DownSendBody (chain s)]
             @ (if clientTerminated s then [] else [DownSendEOM])"
  "clientTerminated (onServerEOM s) = clientTerminated s"
  by (simp_all add: onServerEOM_def emit_def Let_def)

lemma readEOF_trace:
  "trace (readEOF s) =
     trace s @ [DoDownloadResponse, DownSendBody (chain s)]
             @ (if clientTerminated s then [] else [DownSendEOM])"
  "clientTerminated (readEOF s) = clientTerminated s"
  "sockStatus (readEOF s) = sockStatus s OR READS_SHUTDOWN"
  by (simp_all add: readEOF_def onServerEOM_def emit_def Let_def)

lemma eom_signals_count:
  assumes "\<forall>e\<in>set es. upstream_eom_signal e"
  shows "\<exists>s'. run es s = Inr s' \<and> clientTerminated s' = clientTerminated s \<and>
           count_list (trace s') DownSendEOM =
             count_list (trace s) DownSendEOM + (if clientTerminated s then 0 else length es)"
  using assms
proof (induction es arbitrary: s)
  case Nil
  then show ?case by simp
next
  case (Cons e es)
  then have e: "e = OnServerEOM \<or> e = ReadEOF"
    by (cases e) simp_all
  then obtain s1 where h: "handle e s = Inr s1" and c: "clientTerminated s1 = clientTerminated s"
    and n: "count_list (trace s1) DownSendEOM =
              count_list (trace s) DownSendEOM + (if clientTerminated s then 0 else 1)"
    by (auto simp: onServerEOM_trace readEOF_trace)
  from Cons.prems have "\<forall>x\<in>set es. upstream_eom_signal x"
    by simp
  from Cons.IH [OF this, of s1] obtain s' where
    "run es s1 = Inr s'" "clientTerminated s' = clientTerminated s1"
    "count_list (trace s') DownSendEOM =
       count_list (trace s1) DownSendEOM + (if clientTerminated s1 then 0 else length es)"
    by blast
  with h c n show ?case
    by auto
qed

subsection \<open>Destruction of the handler\<close>



subsection \<open>Forwarding a request\<close>

text \<open>
  Claim C2 asks that a successful forward sends upstream the request headers, then every
  buffered body chunk, then end-of-message. Evaluated on a POST request with one body
  chunk that the decision forwards and whose connection is then established: \<open>onBody\<close>
  keeps nothing, \<open>onEOM\<close> starts the connection and finds no transaction yet, so it sends
  neither body nor end-of-message, and \<open>connectSuccess\<close> sends the headers alone. The
  upstream transaction receives \<open>sendHeaders\<close> and nothing after it.
\<close>

theorem forward_drops_body_and_EOM:
  "map_sum id trace
     (run [OnRequest post_request, OnBody (Some ''payload''), OnEOM forward_decision,
           ConnectSuccess]
        (fresh 502 ''declined''))
   = Inr [RecordRequest, DownPauseIngress, DownPauseIngress, ConnectorConnect [],
          TxnSendHeaders post_request, DownResumeIngress]"
  by (simp add: input_defs onRequest_def onBody_def onEOM_def ServiceRequest_def
        connectSuccess_def emit_def Let_def)

text \<open>
  Claim C3 asks that a request whose method is neither GET nor POST gets one immediate
  response and never reaches the connector. Evaluated on a DELETE request: \<open>onRequest\<close>
  answers, and the \<open>onEOM\<close> that follows does not know of the rejection. With a decision
  that forwards it calls the connector; with a decision that declines it answers a
  second time.
\<close>

theorem rejected_method_still_decided:
  "map_sum id trace
     (run [OnRequest delete_request, OnEOM forward_decision] (fresh 502 ''declined''))
   = Inr [RecordRequest,
          DownSendHeaders 502 ''Bad Gateway'', DownSendBody (Some ''declined''), DownSendEOM,
          DownPauseIngress, DownPauseIngress, ConnectorConnect []]
   \<and> map_sum id trace
     (run [OnRequest delete_request, OnEOM decline_decision] (fresh 502 ''declined''))
   = Inr [RecordRequest,
          DownSendHeaders 502 ''Bad Gateway'', DownSendBody (Some ''declined''), DownSendEOM,
          DownSendHeaders 502 ''Bad Gateway'', DownSendBody (Some ''declined''), DownSendEOM]"
  by (simp add: input_defs onRequest_def onEOM_def ServiceRequest_def ResponseBuilder_def
        emit_def Let_def)

text \<open>
  Claim C4 asks for exactly one immediate response, and no connection attempt, for every
  request that the decision does not forward. Evaluated on a DELETE request that the
  decision declines: \<open>onRequest\<close> has already answered when \<open>onEOM\<close> answers, and the
  client is sent two responses, each with its own end-of-message. The body of either is
  there only if \<open>rsp_body_\<close> is not empty.
\<close>

theorem declined_rejected_method_answers_twice:
  "map_sum id trace
     (run [OnRequest delete_request, OnEOM decline_decision] (fresh 502 ''declined''))
   = Inr [RecordRequest,
          DownSendHeaders 502 ''Bad Gateway'', DownSendBody (Some ''declined''), DownSendEOM,
          DownSendHeaders 502 ''Bad Gateway'', DownSendBody (Some ''declined''), DownSendEOM]
   \<and> map_sum id (\<lambda>s. count_list (trace s) DownSendEOM)
     (run [OnRequest delete_request, OnEOM decline_decision] (fresh 502 ''declined''))
   = Inr 2
   \<and> map_sum id trace
     (run [OnRequest delete_request, OnEOM decline_decision] (fresh 502 []))
   = Inr [RecordRequest,
          DownSendHeaders 502 ''Bad Gateway'', DownSendEOM,
          DownSendHeaders 502 ''Bad Gateway'', DownSendEOM]"
  by (simp add: input_defs onRequest_def onEOM_def ServiceRequest_def ResponseBuilder_def
        emit_def Let_def)

subsection \<open>End of the upstream response\<close>

text \<open>
  Claim C5, as the code has it. Each signal that the upstream response has ended,
  \<open>onServerEOM\<close> itself or \<open>readEOF\<close>, which marks reads as shut down and then runs
  \<open>onServerEOM\<close>, sends the client one body and, unless the client has terminated, one
  end-of-message. The handler keeps no record of an end-of-message already sent: a
  sequence of such signals sends as many as there are signals while the client has not
  terminated, and none once it has.
\<close>

theorem upstream_EOM_signal_sends_EOM_each_time:
  "trace (onServerEOM s) =
     trace s @ [DoDownloadResponse, DownSendBody (chain s)]
             @ (if clientTerminated s then [] else [DownSendEOM])
   \<and> trace (readEOF s) =
     trace s @ [DoDownloadResponse, DownSendBody (chain s)]
             @ (if clientTerminated s then [] else [DownSendEOM])
   \<and> sockStatus (readEOF s) = sockStatus s OR READS_SHUTDOWN
   \<and> ((\<forall>e\<in>set es. upstream_eom_signal e) \<longrightarrow>
        (\<exists>s'. run es s = Inr s'
           \<and> count_list (trace s') DownSendEOM =
               count_list (trace s) DownSendEOM
                 + (if clientTerminated s then 0 else length es)))"
proof (intro conjI impI)
  show "trace (onServerEOM s) =
     trace s @ [DoDownloadResponse, DownSendBody (chain s)]
             @ (if clientTerminated s then [] else [DownSendEOM])"
    by (rule onServerEOM_trace(1))
  show "trace (readEOF s) =
     trace s @ [DoDownloadResponse, DownSendBody (chain s)]
             @ (if clientTerminated s then [] else [DownSendEOM])"
    by (rule readEOF_trace(1))
  show "sockStatus (readEOF s) = sockStatus s OR READS_SHUTDOWN"
    by (rule readEOF_trace(3))
next
  assume "\<forall>e\<in>set es. upstream_eom_signal e"
  from eom_signals_count [OF this, of s]
  show "\<exists>s'. run es s = Inr s'
           \<and> count_list (trace s') DownSendEOM =
               count_list (trace s) DownSendEOM
                 + (if clientTerminated s then 0 else length es)"
    by blast
qed

theorem upstream_EOM_signal_sends_EOM_each_time_witness:
  "upstream_eom_signal ReadEOF \<and> upstream_eom_signal OnServerEOM
   \<and> \<not> clientTerminated raw_relay_handler
   \<and> map_sum id (\<lambda>s'. count_list (trace s') DownSendEOM)
        (run [ReadEOF, OnServerEOM] raw_relay_handler) = Inr 2
   \<and> sockStatus (readEOF raw_relay_handler) = READS_SHUTDOWN"
  using upstream_EOM_signal_sends_EOM_each_time [of raw_relay_handler "[ReadEOF, OnServerEOM]"]
  by (simp add: input_defs readEOF_def onServerEOM_def emit_def Let_def READS_SHUTDOWN_def)

text \<open>
  Claim C5, as stated, asks for at most one end-of-message to the client when both the
  raw-socket read EOF and the normal completion path signal the end of the upstream
  response. On a handler relaying over a raw socket whose client has not terminated,
  \<open>readEOF\<close> followed by \<open>onServerEOM\<close> sends two.
\<close>

theorem duplicate_EOM_counterexample:
  "trace (onServerEOM (readEOF raw_relay_handler))
     = [DoDownloadResponse, DownSendBody None, DownSendEOM,
        DoDownloadResponse, DownSendBody None, DownSendEOM]
   \<and> count_list (trace (onServerEOM (readEOF raw_relay_handler))) DownSendEOM = 2"
  by (simp add: input_defs readEOF_def onServerEOM_def emit_def Let_def)

subsection \<open>Connect failure and client error\<close>




text \<open>
  Claim C7. On a client error the handler sets \<open>clientTerminated_\<close>, aborts the upstream
  transaction if one is attached, releases the raw upstream socket if one exists, and
  runs the shutdown check, which destroys the handler when no transaction is attached.
  The statement is for a handler that does not hold a transaction and a raw socket at
  once. Every handler the code can reach is of this kind: no callback creates a raw
  socket, so that a handler that starts without one never has one.
\<close>

theorem onError_terminates_client_side:
  "(\<not> (txn s \<and> upstreamSock s) \<longrightarrow>
      clientTerminated (onError s)
      \<and> (txn s \<longrightarrow> txn (onError s) \<and> trace (onError s) = trace s @ [TxnSendAbort])
      \<and> (upstreamSock s \<longrightarrow>
           \<not> upstreamSock (onError s) \<and> trace (onError s) = trace s @ [SockReset, DeleteThis])
      \<and> (\<not> txn s \<and> \<not> upstreamSock s \<longrightarrow> trace (onError s) = trace s @ [DeleteThis])
      \<and> (\<exists>s2. onError s = fst (checkForShutdown s2)
            \<and> clientTerminated s2
            \<and> trace s2 = trace s @ (if txn s then [TxnSendAbort]
                                     else if upstreamSock s then [SockReset]
                                     else [])))
   \<and> (\<not> upstreamSock s0 \<and> run es s0 = Inr s1 \<longrightarrow> \<not> (txn s1 \<and> upstreamSock s1))"
proof (intro conjI impI)
  assume n: "\<not> (txn s \<and> upstreamSock s)"
  show "clientTerminated (onError s)"
    by (simp add: onError_def checkForShutdown_def emit_def Let_def)
  {
    assume "txn s"
    then show "txn (onError s)"
      by (simp add: onError_def checkForShutdown_def emit_def Let_def)
  }
  {
    assume "txn s"
    then show "trace (onError s) = trace s @ [TxnSendAbort]"
      by (simp add: onError_def checkForShutdown_def emit_def Let_def)
  }
  {
    assume "upstreamSock s"
    with n show "\<not> upstreamSock (onError s)"
      by (simp add: onError_def checkForShutdown_def emit_def Let_def)
  }
  {
    assume "upstreamSock s"
    with n show "trace (onError s) = trace s @ [SockReset, DeleteThis]"
      by (simp add: onError_def checkForShutdown_def emit_def Let_def)
  }
  {
    assume "\<not> txn s \<and> \<not> upstreamSock s"
    then show "trace (onError s) = trace s @ [DeleteThis]"
      by (simp add: onError_def checkForShutdown_def emit_def Let_def)
  }
  let ?s1 = "s\<lparr>clientTerminated := True\<rparr>"
  let ?s2 = "if txn ?s1 then emit [TxnSendAbort] ?s1
             else if upstreamSock ?s1 then (emit [SockReset] ?s1)\<lparr>upstreamSock := False\<rparr>
             else ?s1"
  have "onError s = fst (checkForShutdown ?s2)"
    by (simp add: onError_def Let_def)
  moreover have "clientTerminated ?s2"
    by (simp add: emit_def)
  moreover have "trace ?s2 = trace s @ (if txn s then [TxnSendAbort]
                                   else if upstreamSock s then [SockReset]
                                   else [])"
    by (simp add: emit_def)
  ultimately show "\<exists>s2. onError s = fst (checkForShutdown s2)
          \<and> clientTerminated s2
          \<and> trace s2 = trace s @ (if txn s then [TxnSendAbort]
                                   else if upstreamSock s then [SockReset]
                                   else [])"
    by blast
next
  assume a: "\<not> upstreamSock s0 \<and> run es s0 = Inr s1"
  then have r1: "run es s0 = Inr s1" and r2: "\<not> upstreamSock s0"
    by simp_all
  have "\<not> upstreamSock s1"
    by (rule run_no_sock [OF r1 r2])
  then show "\<not> (txn s1 \<and> upstreamSock s1)"
    by simp
qed

text \<open>The theorem at a handler with a transaction attached, at one relaying over a raw
  socket, and at one that has only received the request headers.\<close>

theorem onError_terminates_client_side_witness:
  "\<not> (txn paused_relay_handler \<and> upstreamSock paused_relay_handler)
   \<and> txn paused_relay_handler
   \<and> clientTerminated (onError paused_relay_handler)
   \<and> trace (onError paused_relay_handler) = [TxnSendAbort]
   \<and> \<not> (txn raw_relay_handler \<and> upstreamSock raw_relay_handler)
   \<and> upstreamSock raw_relay_handler
   \<and> clientTerminated (onError raw_relay_handler)
   \<and> \<not> upstreamSock (onError raw_relay_handler)
   \<and> trace (onError raw_relay_handler) = [SockReset, DeleteThis]
   \<and> \<not> upstreamSock (fresh 502 ''declined'')
   \<and> run [OnRequest post_request] (fresh 502 ''declined'')
       = Inr (onRequest post_request (fresh 502 ''declined''))
   \<and> \<not> upstreamSock (onRequest post_request (fresh 502 ''declined''))"
  using onError_terminates_client_side
          [of paused_relay_handler "fresh 502 ''declined''" "[OnRequest post_request]"
              "onRequest post_request (fresh 502 ''declined'')"]
    onError_terminates_client_side [of raw_relay_handler]
  by (simp add: input_defs onRequest_def onError_def checkForShutdown_def emit_def Let_def)

subsection \<open>Backpressure\<close>

text \<open>
  Claim C8, as the code has it. When upstream signals egress-paused and the client has
  not terminated, the handler pauses downstream ingress, and does nothing else: it does
  not write \<open>downstreamIngressPaused_\<close>. When upstream signals egress-resumed and the
  client has not terminated, it resumes downstream ingress whatever the flag says and
  leaves the flag as it was. On a raw-socket write success it clears
  \<open>upstreamEgressPaused_\<close> and, if \<open>downstreamIngressPaused_\<close> was set, clears it and
  resumes downstream ingress unless the client has terminated; then it runs the shutdown
  check. A body chunk from the client is passed to upstream by no callback, paused or
  not: \<open>onBody\<close> leaves the handler as it is.
\<close>

theorem upstream_backpressure_as_coded:
  "onServerEgressPaused s = (if clientTerminated s then s else emit [DownPauseIngress] s)
   \<and> downstreamIngressPaused (onServerEgressPaused s) = downstreamIngressPaused s
   \<and> onServerEgressResumed s = (if clientTerminated s then s else emit [DownResumeIngress] s)
   \<and> downstreamIngressPaused (onServerEgressResumed s) = downstreamIngressPaused s
   \<and> onBody b s = s
   \<and> \<not> upstreamEgressPaused (writeSuccess s)
   \<and> \<not> downstreamIngressPaused (writeSuccess s)
   \<and> trace (writeSuccess s) =
       trace s
         @ (if downstreamIngressPaused s \<and> \<not> clientTerminated s then [DownResumeIngress] else [])
         @ (if clientTerminated s \<and> \<not> txn s \<and> (\<not> upstreamSock s \<or> sockStatus s = CLOSED)
            then [DeleteThis] else [])"
  by (simp add: onServerEgressPaused_def onServerEgressResumed_def writeSuccess_def
        onBody_def checkForShutdown_def emit_def Let_def)

theorem upstream_backpressure_as_coded_witness:
  "downstreamIngressPaused paused_relay_handler \<and> \<not> clientTerminated paused_relay_handler
   \<and> trace (onServerEgressPaused paused_relay_handler) = [DownPauseIngress]
   \<and> trace (onServerEgressResumed paused_relay_handler) = [DownResumeIngress]
   \<and> \<not> downstreamIngressPaused (writeSuccess paused_relay_handler)
   \<and> trace (writeSuccess paused_relay_handler) = [DownResumeIngress]"
  using upstream_backpressure_as_coded [of paused_relay_handler "Some ''payload''"]
  by (simp add: input_defs emit_def)

text \<open>
  Claim C8, as stated, asks that the egress-paused signal records
  \<open>downstreamIngressPaused = true\<close> and that the egress-resumed signal clears the flag
  when it was set. On a fresh handler \<open>onServerEgressPaused\<close> pauses downstream ingress and
  leaves the flag off; on a handler whose flag is set \<open>onServerEgressResumed\<close> resumes
  downstream ingress and leaves the flag on.
\<close>

theorem egress_paused_flag_counterexample:
  "trace (onServerEgressPaused (fresh 502 ''declined'')) = [DownPauseIngress]
   \<and> \<not> downstreamIngressPaused (onServerEgressPaused (fresh 502 ''declined''))
   \<and> downstreamIngressPaused paused_relay_handler
   \<and> trace (onServerEgressResumed paused_relay_handler) = [DownResumeIngress]
   \<and> downstreamIngressPaused (onServerEgressResumed paused_relay_handler)"
  by (simp add: input_defs onServerEgressPaused_def onServerEgressResumed_def emit_def)

text \<open>
  Claim C9. When the client signals egress-paused the handler pauses upstream ingress:
  through the transaction's \<open>pauseIngress\<close> if a transaction is attached, otherwise, if a
  raw socket exists, by taking its read callback away; with no upstream at all it does
  nothing. When the client signals egress-resumed it does the reverse by the same case
  distinction. Nothing else in the handler changes.
\<close>

theorem client_backpressure_pauses_upstream:
  "onEgressPaused s =
     emit (if txn s then [TxnPauseIngress]
           else if upstreamSock s then [SockSetReadCB False] else []) s
   \<and> onEgressResumed s =
     emit (if txn s then [TxnResumeIngress]
           else if upstreamSock s then [SockSetReadCB True] else []) s"
  by (simp add: onEgressPaused_def onEgressResumed_def emit_def)

theorem client_backpressure_pauses_upstream_witness:
  "trace (onEgressPaused paused_relay_handler) = [TxnPauseIngress]
   \<and> trace (onEgressResumed paused_relay_handler) = [TxnResumeIngress]"
  using client_backpressure_pauses_upstream [of paused_relay_handler]
  by (simp add: input_defs emit_def)

subsection \<open>After the client has terminated\<close>

text \<open>
  Claim C10. Once \<open>clientTerminated_\<close> is set it stays set, and whatever callbacks follow,
  the handler sends the client no abort: the only \<open>sendAbort\<close> on the downstream is in
  \<open>abortDownstream\<close>, behind the flag. It sends the client no end-of-message either, on
  the upstream end-of-message path (\<open>onServerEOM\<close>, \<open>readEOF\<close>) or on any other, as long
  as none of the callbacks is one of the two that answer the client's own request with
  an immediate response (\<open>onRequest\<close> for a rejected method, \<open>onEOM\<close> for a declined
  forward), which the client-facing stream delivers before termination only.
\<close>

theorem no_abort_or_EOM_after_client_termination:
  "clientTerminated s \<Longrightarrow> run es s = Inr s' \<Longrightarrow>
     clientTerminated s'
     \<and> (\<exists>acts. trace s' = trace s @ acts
           \<and> DownSendAbort \<notin> set acts
           \<and> ((\<forall>e\<in>set es. \<not> sends_immediate_response e) \<longrightarrow> DownSendEOM \<notin> set acts))"
  by (rule run_terminated)

theorem no_abort_or_EOM_after_client_termination_witness:
  "clientTerminated aborted_relay_handler
   \<and> \<not> sends_immediate_response OnServerEOM
   \<and> \<not> sends_immediate_response OnServerError
   \<and> \<not> sends_immediate_response ConnectError
   \<and> \<not> sends_immediate_response DetachServerTransaction
   \<and> map_sum id trace
       (run [OnServerEOM, OnServerError, ConnectError, DetachServerTransaction]
          aborted_relay_handler)
     = Inr [DoDownloadResponse, DownSendBody None, DeleteThis]"
proof -
  have r: "run [OnServerEOM, OnServerError, ConnectError, DetachServerTransaction]
             aborted_relay_handler
           = Inr (detachServerTransaction (connectError (onServerError
                    (onServerEOM aborted_relay_handler))))"
    by simp
  have t: "clientTerminated aborted_relay_handler"
    by (simp add: input_defs)
  from no_abort_or_EOM_after_client_termination [OF t r]
  have "clientTerminated (detachServerTransaction (connectError (onServerError
                    (onServerEOM aborted_relay_handler))))"
    by blast
  then show ?thesis
    by (simp add: input_defs onServerEOM_def onServerError_def connectError_def
          detachServerTransaction_def abortDownstream_def checkForShutdown_def emit_def Let_def)
qed

end
